theory Spec2Isabelle
  imports Complex_Main
begin

section \<open>JavaScript values\<close>

text \<open>
  The two handlers of \<^verbatim>\<open>src/src/app.js\<close> (\<^verbatim>\<open>app.get('/api/products')\<close>, lines 107-161,
  and \<^verbatim>\<open>app.post('/api/products')\<close>, lines 166-245) are embedded as HOL functions. The
  request body comes from \<^verbatim>\<open>express.json()\<close>, so its fields are arbitrary JSON values and
  the handler's tests (\<^verbatim>\<open>!name\<close>, \<^verbatim>\<open>isNaN(price)\<close>, \<^verbatim>\<open>price < 0\<close>) work through JavaScript's
  coercions, which are written out here.

  A JavaScript string is a sequence of UTF-16 code units; a code unit is a \<open>nat\<close> (every
  code unit is below 65536; the definitions do not need the bound). The source's string
  literals are ASCII and are written \<open>str ''...''\<close>.
\<close>

type_synonym jsstring = "nat list"

definition str :: "string \<Rightarrow> jsstring" where
  "str s = map of_char s"

text \<open>
  A Number is a finite value, negative zero, NaN or an infinity. A finite value is kept as
  the rational it denotes (every double is a rational); \<open>Fin 0\<close> is \<open>+0\<close>.
\<close>

datatype number = Fin rat | NegZero | NaN | PosInf | NegInf

datatype jsval =
    JUndefined
  | JNull
  | JBool bool
  | JNum number
  | JStr jsstring
  | JArr "jsval list"
  | JObj "(jsstring \<times> jsval) list"

text \<open>What a \<^verbatim>\<open>throw\<close> carries: the fields of the error object that the handlers read.\<close>

record js_error =
  err_name :: jsstring
  err_code :: jsval
  err_message :: jsstring

definition TypeError :: "jsstring \<Rightarrow> js_error" where
  "TypeError msg = \<lparr>err_name = str ''TypeError'', err_code = JUndefined, err_message = msg\<rparr>"

text \<open>
  A document of the \<^verbatim>\<open>Product\<close> model (\<^verbatim>\<open>productSchema\<close>, lines 88-94): \<open>product_fields\<close> is
  what \<^verbatim>\<open>new Product({name, price, description})\<close> is given, \<open>product\<close> a stored document
  with the \<^verbatim>\<open>_id\<close> the store assigned (\<open>p_id\<close>; the version key \<^verbatim>\<open>__v\<close> is left out).
\<close>

record product_fields =
  f_name :: jsstring
  f_price :: number
  f_description :: jsstring

record product =
  p_id :: nat
  p_name :: jsstring
  p_price :: number
  p_description :: jsstring

text \<open>
  The built-in functions that the handlers call and that this development does not define
  are parameters of the model; every theorem below holds for all of them.
  \<^item> \<open>JSON_stringify\<close>, \<open>JSON_parse\<close>: \<^verbatim>\<open>JSON.stringify\<close> on the array of documents that
    \<^verbatim>\<open>Product.find({})\<close> returns, and \<^verbatim>\<open>JSON.parse\<close>, which throws on text that is not JSON.
  \<^item> \<open>round_mv\<close>: the rounding of the mathematical value of a numeric string literal to
    a Number (to the nearest double; to \<open>+0\<close> or to \<open>+Infinity\<close> at the extremes). It is
    applied to a non-negative rational.
  \<^item> \<open>object_to_primitive\<close>: what \<^verbatim>\<open>ToPrimitive\<close> gives for an array or a plain object of the
    request body, a string (\<^verbatim>\<open>Array.prototype.join\<close>, \<^verbatim>\<open>"[object Object]"\<close>) or a thrown
    TypeError.
\<close>

record builtins =
  JSON_stringify :: "product list \<Rightarrow> jsstring"
  JSON_parse :: "jsstring \<Rightarrow> js_error + jsval"
  round_mv :: "rat \<Rightarrow> number"
  object_to_primitive :: "jsval \<Rightarrow> js_error + jsstring"

subsection \<open>ToBoolean\<close>

text \<open>\<^verbatim>\<open>!v\<close> is \<open>\<not> truthy v\<close>: undefined, null, false, \<open>+0\<close>, \<open>-0\<close>, NaN and the empty
  string are falsy, every other value (every array and object too) is truthy.\<close>

fun truthy :: "jsval \<Rightarrow> bool" where
  "truthy JUndefined = False"
| "truthy JNull = False"
| "truthy (JBool b) = b"
| "truthy (JNum (Fin q)) = (q \<noteq> 0)"
| "truthy (JNum NegZero) = False"
| "truthy (JNum NaN) = False"
| "truthy (JNum PosInf) = True"
| "truthy (JNum NegInf) = True"
| "truthy (JStr s) = (s \<noteq> [])"
| "truthy (JArr xs) = True"
| "truthy (JObj kvs) = True"

subsection \<open>Strings: trim\<close>

text \<open>
  White space and line terminators, the code units that \<^verbatim>\<open>String.prototype.trim\<close> strips
  and that may surround a numeric string: TAB, LF, VT, FF, CR, SP, NBSP, U+1680,
  U+2000 to U+200A, U+2028, U+2029, U+202F, U+205F, U+3000 and U+FEFF.
\<close>

definition is_white_space :: "nat \<Rightarrow> bool" where
  "is_white_space c \<longleftrightarrow>
     c = 9 \<or> c = 10 \<or> c = 11 \<or> c = 12 \<or> c = 13 \<or> c = 32 \<or> c = 160 \<or> c = 5760 \<or>
     (8192 \<le> c \<and> c \<le> 8202) \<or> c = 8232 \<or> c = 8233 \<or> c = 8239 \<or> c = 8287 \<or>
     c = 12288 \<or> c = 65279"

definition trim_start :: "jsstring \<Rightarrow> jsstring" where
  "trim_start s = dropWhile is_white_space s"

definition trim :: "jsstring \<Rightarrow> jsstring" where
  "trim s = rev (dropWhile is_white_space (rev (dropWhile is_white_space s)))"

subsection \<open>Numeric string literals\<close>

definition is_digit :: "nat \<Rightarrow> bool" where
  "is_digit c \<longleftrightarrow> 48 \<le> c \<and> c \<le> 57"

definition digits_value :: "jsstring \<Rightarrow> nat" where
  "digits_value ds = foldl (\<lambda>a c. 10 * a + (c - 48)) 0 ds"

definition pow10 :: "int \<Rightarrow> rat" where
  "pow10 e = (if 0 \<le> e then 10 ^ nat e else 1 / 10 ^ nat (- e))"

text \<open>\<^verbatim>\<open>ExponentPart\<close>: \<^verbatim>\<open>e\<close> or \<^verbatim>\<open>E\<close>, an optional sign and at least one digit. The result is the
  exponent and the text after it; text that does not start with an exponent part is
  left as it is, with exponent 0.\<close>

definition scan_exponent :: "jsstring \<Rightarrow> int \<times> jsstring" where
  "scan_exponent s =
     (case s of
        [] \<Rightarrow> (0, s)
      | c # t \<Rightarrow>
          if c = 101 \<or> c = 69 then
            (let neg = (case t of [] \<Rightarrow> False | d # u \<Rightarrow> d = 45);
                 t' = (case t of [] \<Rightarrow> t | d # u \<Rightarrow> if d = 45 \<or> d = 43 then u else t);
                 ds = takeWhile is_digit t'
             in if ds = [] then (0, s)
                else ((if neg then - int (digits_value ds) else int (digits_value ds)),
                      dropWhile is_digit t'))
          else (0, s))"

datatype literal = LitInfinity | LitDecimal rat

text \<open>The longest prefix that is a \<^verbatim>\<open>StrUnsignedDecimalLiteral\<close> (\<^verbatim>\<open>Infinity\<close>, \<^verbatim>\<open>12\<close>, \<^verbatim>\<open>12.\<close>,
  \<^verbatim>\<open>12.5\<close>, \<^verbatim>\<open>.5\<close>, each but the first with an optional exponent part), with its
  mathematical value and the text after it; \<open>None\<close> when no prefix is one.\<close>

definition scan_unsigned :: "jsstring \<Rightarrow> (literal \<times> jsstring) option" where
  "scan_unsigned s =
     (if take 8 s = str ''Infinity'' then Some (LitInfinity, drop 8 s)
      else
        (let ip = takeWhile is_digit s; r1 = dropWhile is_digit s in
         case r1 of
           [] \<Rightarrow> if ip = [] then None else Some (LitDecimal (of_nat (digits_value ip)), [])
         | c # r2 \<Rightarrow>
             if c = 46 then
               (let fp = takeWhile is_digit r2; r3 = dropWhile is_digit r2 in
                if ip = [] \<and> fp = [] then None
                else
                  (let (e, r4) = scan_exponent r3 in
                   Some (LitDecimal
                          ((of_nat (digits_value ip)
                            + of_nat (digits_value fp) / 10 ^ length fp) * pow10 e), r4)))
             else if ip = [] then None
             else
               (let (e, r4) = scan_exponent r1 in
                Some (LitDecimal (of_nat (digits_value ip) * pow10 e), r4))))"

definition literal_value :: "builtins \<Rightarrow> literal \<Rightarrow> number" where
  "literal_value B l = (case l of LitInfinity \<Rightarrow> PosInf | LitDecimal q \<Rightarrow> round_mv B q)"

definition negate :: "number \<Rightarrow> number" where
  "negate n =
     (case n of
        Fin q \<Rightarrow> if q = 0 then NegZero else Fin (- q)
      | NegZero \<Rightarrow> Fin 0
      | NaN \<Rightarrow> NaN
      | PosInf \<Rightarrow> NegInf
      | NegInf \<Rightarrow> PosInf)"

text \<open>\<^verbatim>\<open>StrDecimalLiteral\<close>: an optional sign and an unsigned literal.\<close>

definition scan_signed :: "builtins \<Rightarrow> jsstring \<Rightarrow> (number \<times> jsstring) option" where
  "scan_signed B s =
     (case s of
        [] \<Rightarrow> None
      | c # t \<Rightarrow>
          if c = 45 then map_option (\<lambda>(l, r). (negate (literal_value B l), r)) (scan_unsigned t)
          else if c = 43 then map_option (\<lambda>(l, r). (literal_value B l, r)) (scan_unsigned t)
          else map_option (\<lambda>(l, r). (literal_value B l, r)) (scan_unsigned s))"

text \<open>\<^verbatim>\<open>NonDecimalIntegerLiteral\<close>: \<^verbatim>\<open>0x\<close>, \<^verbatim>\<open>0o\<close> or \<^verbatim>\<open>0b\<close> (either case) and at least one
  digit of that radix, nothing else.\<close>

definition radix_digit :: "nat \<Rightarrow> nat option" where
  "radix_digit c =
     (if 48 \<le> c \<and> c \<le> 57 then Some (c - 48)
      else if 97 \<le> c \<and> c \<le> 102 then Some (c - 87)
      else if 65 \<le> c \<and> c \<le> 70 then Some (c - 55)
      else None)"

fun radix_value :: "nat \<Rightarrow> nat \<Rightarrow> jsstring \<Rightarrow> nat option" where
  "radix_value r acc [] = Some acc"
| "radix_value r acc (c # cs) =
     (case radix_digit c of
        None \<Rightarrow> None
      | Some d \<Rightarrow> if d < r then radix_value r (r * acc + d) cs else None)"

definition non_decimal :: "jsstring \<Rightarrow> nat option" where
  "non_decimal s =
     (case s of
        z # x # d # ds \<Rightarrow>
          if z \<noteq> 48 then None
          else if x = 120 \<or> x = 88 then radix_value 16 0 (d # ds)
          else if x = 111 \<or> x = 79 then radix_value 8 0 (d # ds)
          else if x = 98 \<or> x = 66 then radix_value 2 0 (d # ds)
          else None
      | _ \<Rightarrow> None)"

text \<open>\<^verbatim>\<open>StringToNumber\<close>: the text without the white space around it is empty (\<open>+0\<close>) or
  is one numeric literal as a whole; any other text is NaN.\<close>

definition string_to_number :: "builtins \<Rightarrow> jsstring \<Rightarrow> number" where
  "string_to_number B s =
     (let t = trim s in
      if t = [] then Fin 0
      else
        (case non_decimal t of
           Some n \<Rightarrow> round_mv B (of_nat n)
         | None \<Rightarrow>
             (case scan_signed B t of
                Some (v, []) \<Rightarrow> v
              | _ \<Rightarrow> NaN)))"

text \<open>\<^verbatim>\<open>parseFloat\<close> on a string: leading white space is skipped and the longest prefix
  that is a \<^verbatim>\<open>StrDecimalLiteral\<close> is read; NaN when there is none.\<close>

definition parse_float_string :: "builtins \<Rightarrow> jsstring \<Rightarrow> number" where
  "parse_float_string B s =
     (case scan_signed B (trim_start s) of
        None \<Rightarrow> NaN
      | Some (v, r) \<Rightarrow> v)"

subsection \<open>ToNumber, isNaN, the comparison with 0, parseFloat\<close>

definition to_number :: "builtins \<Rightarrow> jsval \<Rightarrow> js_error + number" where
  "to_number B v =
     (case v of
        JUndefined \<Rightarrow> Inr NaN
      | JNull \<Rightarrow> Inr (Fin 0)
      | JBool b \<Rightarrow> Inr (if b then Fin 1 else Fin 0)
      | JNum n \<Rightarrow> Inr n
      | JStr s \<Rightarrow> Inr (string_to_number B s)
      | _ \<Rightarrow>
          (case object_to_primitive B v of
             Inl e \<Rightarrow> Inl e
           | Inr s \<Rightarrow> Inr (string_to_number B s)))"

definition isNaN :: "builtins \<Rightarrow> jsval \<Rightarrow> js_error + bool" where
  "isNaN B v = (case to_number B v of Inl e \<Rightarrow> Inl e | Inr n \<Rightarrow> Inr (n = NaN))"

text \<open>\<^verbatim>\<open>v < 0\<close>: both sides become Numbers (the right one is not a string); a comparison
  with NaN is false, and so is \<^verbatim>\<open>-0 < 0\<close>.\<close>

definition less_than_zero :: "builtins \<Rightarrow> jsval \<Rightarrow> js_error + bool" where
  "less_than_zero B v =
     (case to_number B v of
        Inl e \<Rightarrow> Inl e
      | Inr n \<Rightarrow> Inr (case n of Fin q \<Rightarrow> q < 0 | NegInf \<Rightarrow> True | _ \<Rightarrow> False))"

text \<open>\<^verbatim>\<open>parseFloat(v)\<close> reads the string \<^verbatim>\<open>ToString(v)\<close>. For a Number that string is the
  shortest decimal that reads back as the same Number (\<^verbatim>\<open>"Infinity"\<close>, \<^verbatim>\<open>"NaN"\<close> for those),
  so the result is the Number itself, but for \<^verbatim>\<open>-0\<close>, whose string is \<^verbatim>\<open>"0"\<close>.\<close>

definition parseFloat :: "builtins \<Rightarrow> jsval \<Rightarrow> js_error + number" where
  "parseFloat B v =
     (case v of
        JUndefined \<Rightarrow> Inr (parse_float_string B (str ''undefined''))
      | JNull \<Rightarrow> Inr (parse_float_string B (str ''null''))
      | JBool b \<Rightarrow> Inr (parse_float_string B (if b then str ''true'' else str ''false''))
      | JNum n \<Rightarrow> Inr (if n = NegZero then Fin 0 else n)
      | JStr s \<Rightarrow> Inr (parse_float_string B s)
      | _ \<Rightarrow>
          (case object_to_primitive B v of
             Inl e \<Rightarrow> Inl e
           | Inr s \<Rightarrow> Inr (parse_float_string B s)))"

text \<open>\<^verbatim>\<open>x.trim()\<close> for the expression text \<open>expr\<close>: a string is trimmed; a value of
  another type has no callable \<^verbatim>\<open>trim\<close> and the call throws a TypeError (the message is
  V8's).\<close>

definition call_trim :: "jsstring \<Rightarrow> jsval \<Rightarrow> js_error + jsstring" where
  "call_trim expr v =
     (case v of
        JStr s \<Rightarrow> Inr (trim s)
      | JUndefined \<Rightarrow>
          Inl (TypeError (str ''Cannot read properties of undefined (reading 'trim')''))
      | JNull \<Rightarrow> Inl (TypeError (str ''Cannot read properties of null (reading 'trim')''))
      | _ \<Rightarrow> Inl (TypeError (expr @ str ''.trim is not a function'')))"

section \<open>The store, the cache and the responses\<close>

text \<open>
  The process has one module-level handle, \<^verbatim>\<open>redisClient\<close> (line 20), which
  \<^verbatim>\<open>connectRedis\<close> sets to the client or to \<^verbatim>\<open>null\<close> (lines 76, 82) before the server
  listens; \<open>None\<close> is \<^verbatim>\<open>null\<close>. The Redis server's data is \<open>redis_data\<close>, a map from keys to
  the value and the expiry (\<^verbatim>\<open>EX\<close>, in seconds) of the last \<^verbatim>\<open>SET\<close>. The MongoDB
  collection is the list of its documents, in insertion order, with the next \<^verbatim>\<open>_id\<close> the
  store will assign. A handler is a function of the state at the start of the request:
  during one request no other request runs and the connection does not change.
\<close>

record redis_client =
  isReady :: bool

record cache_entry =
  ce_value :: jsstring
  ce_EX :: nat

record state =
  redisClient :: "redis_client option"
  redis_data :: "jsstring \<Rightarrow> cache_entry option"
  collection :: "product list"
  next_id :: nat

text \<open>
  What the two backends do during one request: each call of the request either goes
  through or rejects with the given error. A handler makes at most one call of each
  kind.
\<close>

record backend =
  redis_get_error :: "js_error option"
  redis_set_error :: "js_error option"
  find_error :: "js_error option"
  save_error :: "js_error option"

text \<open>The calls a handler makes on the backends, in order; a call that rejects is
  recorded too.\<close>

datatype event =
    RedisGet jsstring
  | RedisSet jsstring jsstring nat
  | MongoFind
  | MongoSave product_fields

definition redis_get :: "backend \<Rightarrow> state \<Rightarrow> jsstring \<Rightarrow> js_error + jsstring option" where
  "redis_get env st key =
     (case redis_get_error env of
        Some e \<Rightarrow> Inl e
      | None \<Rightarrow> Inr (map_option ce_value (redis_data st key)))"

definition redis_set :: "backend \<Rightarrow> state \<Rightarrow> jsstring \<Rightarrow> jsstring \<Rightarrow> nat \<Rightarrow> js_error + state" where
  "redis_set env st key v ex =
     (case redis_set_error env of
        Some e \<Rightarrow> Inl e
      | None \<Rightarrow> Inr (st\<lparr>redis_data := (redis_data st)(key \<mapsto> \<lparr>ce_value = v, ce_EX = ex\<rparr>)\<rparr>))"

text \<open>\<^verbatim>\<open>Product.find({})\<close>: every document of the collection.\<close>

definition Product_find :: "backend \<Rightarrow> state \<Rightarrow> js_error + product list" where
  "Product_find env st =
     (case find_error env of
        Some e \<Rightarrow> Inl e
      | None \<Rightarrow> Inr (collection st))"

text \<open>\<^verbatim>\<open>newProduct.save()\<close>: the document is inserted under a fresh \<^verbatim>\<open>_id\<close> and returned.
  \<open>stored st d\<close> is the document as the store keeps it, \<open>after_save st d\<close> the state
  with the document appended to the collection. Whether a document is accepted is the
  backend's decision, \<open>save_error\<close>: the schema's own validation (a price that is NaN is
  not a Number for it) rejects with an error named \<^verbatim>\<open>ValidationError\<close>.\<close>

definition stored :: "state \<Rightarrow> product_fields \<Rightarrow> product" where
  "stored st d =
     \<lparr>p_id = next_id st, p_name = f_name d, p_price = f_price d,
      p_description = f_description d\<rparr>"

definition after_save :: "state \<Rightarrow> product_fields \<Rightarrow> state" where
  "after_save st d =
     st\<lparr>collection := collection st @ [stored st d], next_id := Suc (next_id st)\<rparr>"

definition Product_save :: "backend \<Rightarrow> product_fields \<Rightarrow> state \<Rightarrow> js_error + product \<times> state" where
  "Product_save env newProduct st =
     (case save_error env of
        Some e \<Rightarrow> Inl e
      | None \<Rightarrow> Inr (stored st newProduct, after_save st newProduct))"

text \<open>\<^verbatim>\<open>redisClient && redisClient.isReady\<close> (lines 116, 138, 198).\<close>

definition client_ready :: "state \<Rightarrow> bool" where
  "client_ready st = (case redisClient st of None \<Rightarrow> False | Some c \<Rightarrow> isReady c)"

definition cacheKey :: jsstring where
  "cacheKey = str ''products''"

text \<open>
  A response: the status and the JSON body. \<open>data\<close> is the array of documents read from
  the store, the saved document, or the value that \<^verbatim>\<open>JSON.parse\<close> made of the cached text.
\<close>

datatype payload = Products "product list" | Saved product | Parsed jsval

record response =
  status :: nat
  success :: bool
  data :: "payload option"
  message :: "jsstring option"
  error :: "jsstring option"

definition succeeded :: "nat \<Rightarrow> payload \<Rightarrow> jsstring \<Rightarrow> response" where
  "succeeded code d msg =
     \<lparr>status = code, success = True, data = Some d, message = Some msg, error = None\<rparr>"

definition failed :: "nat \<Rightarrow> jsstring \<Rightarrow> response" where
  "failed code msg =
     \<lparr>status = code, success = False, data = None, message = None, error = Some msg\<rparr>"

section \<open>GET /api/products\<close>

text \<open>Lines 110-123: \<^verbatim>\<open>cachedProducts\<close> after the guarded read. A rejected \<^verbatim>\<open>get\<close> is caught
  and leaves it \<^verbatim>\<open>null\<close>.\<close>

definition read_cache :: "backend \<Rightarrow> state \<Rightarrow> jsstring option \<times> event list" where
  "read_cache env st =
     (if client_ready st then
        (case redis_get env st cacheKey of
           Inl redisError \<Rightarrow> (None, [RedisGet cacheKey])
         | Inr v \<Rightarrow> (v, [RedisGet cacheKey]))
      else (None, []))"

text \<open>Line 125, \<^verbatim>\<open>if (cachedProducts)\<close>: \<^verbatim>\<open>null\<close> and the empty string are falsy.\<close>

definition cache_hit :: "jsstring option \<Rightarrow> bool" where
  "cache_hit cachedProducts = (case cachedProducts of None \<Rightarrow> False | Some v \<Rightarrow> v \<noteq> [])"

text \<open>Lines 137-146: the write of the read path. A rejected \<^verbatim>\<open>set\<close> is caught.\<close>

definition write_cache :: "builtins \<Rightarrow> backend \<Rightarrow> product list \<Rightarrow> state \<Rightarrow> state \<times> event list" where
  "write_cache B env products st =
     (if client_ready st \<and> length products > 0 then
        (case redis_set env st cacheKey (JSON_stringify B products) 3600 of
           Inl redisError \<Rightarrow> (st, [RedisSet cacheKey (JSON_stringify B products) 3600])
         | Inr st' \<Rightarrow> (st', [RedisSet cacheKey (JSON_stringify B products) 3600]))
      else (st, []))"

text \<open>The handler. An exception in the outer \<^verbatim>\<open>try\<close> (a rejected \<^verbatim>\<open>find\<close>, a \<^verbatim>\<open>JSON.parse\<close>
  that throws) is answered by the \<^verbatim>\<open>catch\<close> of lines 154-160.\<close>

definition get_products :: "builtins \<Rightarrow> backend \<Rightarrow> state \<Rightarrow> response \<times> state \<times> event list" where
  "get_products B env st =
     (let (cachedProducts, evs) = read_cache env st in
      if cache_hit cachedProducts then
        (case JSON_parse B (the cachedProducts) of
           Inl e \<Rightarrow> (failed 500 (err_message e), st, evs)
         | Inr d \<Rightarrow> (succeeded 200 (Parsed d) (str ''Products retrieved from cache''), st, evs))
      else
        (case Product_find env st of
           Inl e \<Rightarrow> (failed 500 (err_message e), st, evs @ [MongoFind])
         | Inr products \<Rightarrow>
             (let (st', evs') = write_cache B env products st in
              (succeeded 200 (Products products) (str ''Products retrieved successfully''),
               st', evs @ [MongoFind] @ evs'))))"

section \<open>POST /api/products\<close>

text \<open>\<^verbatim>\<open>const { name, price, description } = req.body\<close> (line 168): a field the body does
  not have is \<^verbatim>\<open>undefined\<close>.\<close>

record req_body =
  name :: jsval
  price :: jsval
  description :: jsval

text \<open>Line 179, \<^verbatim>\<open>isNaN(price) || price < 0\<close>; the right operand is evaluated only when the
  left one is false.\<close>

definition price_rejected :: "builtins \<Rightarrow> jsval \<Rightarrow> js_error + bool" where
  "price_rejected B p =
     (case isNaN B p of
        Inl e \<Rightarrow> Inl e
      | Inr True \<Rightarrow> Inr True
      | Inr False \<Rightarrow> less_than_zero B p)"

text \<open>Lines 187-191: the three fields are evaluated in order; the first exception
  leaves.\<close>

definition new_Product :: "builtins \<Rightarrow> req_body \<Rightarrow> js_error + product_fields" where
  "new_Product B body =
     (case call_trim (str ''name'') (name body) of
        Inl e \<Rightarrow> Inl e
      | Inr n \<Rightarrow>
          (case parseFloat B (price body) of
             Inl e \<Rightarrow> Inl e
           | Inr p \<Rightarrow>
               (case (if truthy (description body)
                      then call_trim (str ''description'') (description body)
                      else Inr []) of
                  Inl e \<Rightarrow> Inl e
                | Inr d \<Rightarrow> Inr \<lparr>f_name = n, f_price = p, f_description = d\<rparr>)))"

text \<open>Lines 196-212: the cache update after a save. The \<^verbatim>\<open>find\<close> is inside the inner
  \<^verbatim>\<open>try\<close>, so a rejected \<^verbatim>\<open>find\<close> is caught there as a rejected \<^verbatim>\<open>set\<close> is.\<close>

definition update_cache :: "builtins \<Rightarrow> backend \<Rightarrow> state \<Rightarrow> state \<times> event list" where
  "update_cache B env st =
     (if client_ready st then
        (case Product_find env st of
           Inl redisError \<Rightarrow> (st, [MongoFind])
         | Inr allProducts \<Rightarrow>
             (case redis_set env st cacheKey (JSON_stringify B allProducts) 3600 of
                Inl redisError \<Rightarrow>
                  (st, [MongoFind, RedisSet cacheKey (JSON_stringify B allProducts) 3600])
              | Inr st' \<Rightarrow>
                  (st', [MongoFind, RedisSet cacheKey (JSON_stringify B allProducts) 3600])))
      else (st, []))"

text \<open>Lines 167-219, the body of the \<^verbatim>\<open>try\<close>: a response (\<open>Inr\<close>) or the exception that
  leaves it (\<open>Inl\<close>), with the state and the calls made so far.\<close>

definition post_try ::
  "builtins \<Rightarrow> backend \<Rightarrow> req_body \<Rightarrow> state \<Rightarrow> (js_error + response) \<times> state \<times> event list" where
  "post_try B env body st =
     (if \<not> truthy (name body) \<or> \<not> truthy (price body) then
        (Inr (failed 400 (str ''Name and price are required fields'')), st, [])
      else
        (case price_rejected B (price body) of
           Inl e \<Rightarrow> (Inl e, st, [])
         | Inr True \<Rightarrow> (Inr (failed 400 (str ''Price must be a valid positive number'')), st, [])
         | Inr False \<Rightarrow>
             (case new_Product B body of
                Inl e \<Rightarrow> (Inl e, st, [])
              | Inr newProduct \<Rightarrow>
                  (case Product_save env newProduct st of
                     Inl e \<Rightarrow> (Inl e, st, [MongoSave newProduct])
                   | Inr (savedProduct, st1) \<Rightarrow>
                       (let (st2, evs) = update_cache B env st1 in
                        (Inr (succeeded 201 (Saved savedProduct)
                               (str ''Product created successfully'')),
                         st2, MongoSave newProduct # evs))))))"

text \<open>Lines 221-244, the \<^verbatim>\<open>catch\<close>.\<close>

definition post_catch :: "js_error \<Rightarrow> response" where
  "post_catch e =
     (if err_name e = str ''ValidationError'' then
        failed 400 (str ''Validation error: '' @ err_message e)
      else if err_code e = JNum (Fin 11000) then
        failed 409 (str ''Product with this name already exists'')
      else failed 500 (err_message e))"

definition post_products ::
  "builtins \<Rightarrow> backend \<Rightarrow> req_body \<Rightarrow> state \<Rightarrow> response \<times> state \<times> event list" where
  "post_products B env body st =
     (case post_try B env body st of
        (Inl e, st', evs) \<Rightarrow> (post_catch e, st', evs)
      | (Inr res, st', evs) \<Rightarrow> (res, st', evs))"

section \<open>Runs of the service\<close>

text \<open>The three components of what a handler returns.\<close>

definition response_of :: "response \<times> state \<times> event list \<Rightarrow> response" where
  "response_of r = fst r"

definition state_of :: "response \<times> state \<times> event list \<Rightarrow> state" where
  "state_of r = fst (snd r)"

definition events_of :: "response \<times> state \<times> event list \<Rightarrow> event list" where
  "events_of r = snd (snd r)"

text \<open>The \<^verbatim>\<open>SET\<close> commands among the calls of a request: key, value and expiry.\<close>

fun redis_sets :: "event list \<Rightarrow> (jsstring \<times> jsstring \<times> nat) list" where
  "redis_sets [] = []"
| "redis_sets (RedisSet k v ex # evs) = (k, v, ex) # redis_sets evs"
| "redis_sets (e # evs) = redis_sets evs"

text \<open>
  What happens to the state between the start of the server and any later moment: the
  two requests, each with the behaviour of the backends during it, the expiry of the
  cache entry, and a change of the client's connection (the handle is set once, its
  \<^verbatim>\<open>isReady\<close> flag follows the connection).
\<close>

datatype step =
    Get backend
  | Post backend req_body
  | Expire
  | Connection "redis_client option"

fun step_state :: "builtins \<Rightarrow> step \<Rightarrow> state \<Rightarrow> state" where
  "step_state B (Get env) st = state_of (get_products B env st)"
| "step_state B (Post env body) st = state_of (post_products B env body st)"
| "step_state B Expire st = st\<lparr>redis_data := (redis_data st)(cacheKey := None)\<rparr>"
| "step_state B (Connection c) st = st\<lparr>redisClient := c\<rparr>"

fun run :: "builtins \<Rightarrow> step list \<Rightarrow> state \<Rightarrow> state" where
  "run B [] st = st"
| "run B (x # xs) st = run B xs (step_state B x st)"

text \<open>
  The collection only grows, at its end, so the collection as a query saw it at an
  earlier moment is a prefix of the present one. A cache entry is a snapshot when its
  value is the serialization of such a prefix, whole, and its expiry is the fixed hour.
\<close>

definition is_snapshot :: "builtins \<Rightarrow> product list \<Rightarrow> cache_entry \<Rightarrow> bool" where
  "is_snapshot B ds ce \<longleftrightarrow>
     ce_value ce \<in> set (map (\<lambda>n. JSON_stringify B (take n ds)) [0..<Suc (length ds)]) \<and>
     ce_EX ce = 3600"

definition cache_consistent :: "builtins \<Rightarrow> state \<Rightarrow> bool" where
  "cache_consistent B st =
     (case redis_data st cacheKey of
        None \<Rightarrow> True
      | Some ce \<Rightarrow> is_snapshot B (collection st) ce)"

section \<open>Valid create input\<close>

text \<open>
  A price that is a Number above zero (\<^verbatim>\<open>Infinity\<close> is one), and a description that is
  text or is not there (\<^verbatim>\<open>undefined\<close>, \<^verbatim>\<open>null\<close>), with the text that is stored for it
  (line 190: the trimmed string, \<^verbatim>\<open>''\<close> for a falsy value).
\<close>

definition positive :: "number \<Rightarrow> bool" where
  "positive p = (case p of Fin q \<Rightarrow> 0 < q | PosInf \<Rightarrow> True | _ \<Rightarrow> False)"

definition text_or_absent :: "jsval \<Rightarrow> bool" where
  "text_or_absent d =
     (case d of JUndefined \<Rightarrow> True | JNull \<Rightarrow> True | JStr s \<Rightarrow> True | _ \<Rightarrow> False)"

definition description_text :: "jsval \<Rightarrow> jsstring" where
  "description_text d = (case d of JStr s \<Rightarrow> trim s | _ \<Rightarrow> [])"

section \<open>Sample requests\<close>

text \<open>
  Concrete values on which the handlers are evaluated below. The JSON functions of
  \<open>sample_builtins\<close> are stand-ins: the theorems do not depend on them. The serializer
  writes the names of the documents between brackets. The parser reads the text \<^verbatim>\<open>[]\<close>,
  as the empty array, and throws on every other text; on the cached texts used below
  (\<^verbatim>\<open>[]\<close>, and three texts that are not JSON) it does what \<^verbatim>\<open>JSON.parse\<close> does.
\<close>

definition SyntaxError :: js_error where
  "SyntaxError =
     \<lparr>err_name = str ''SyntaxError'', err_code = JUndefined,
      err_message = str ''Unexpected token in JSON''\<rparr>"

definition sample_builtins :: builtins where
  "sample_builtins =
     \<lparr>JSON_stringify = (\<lambda>ps. 91 # concat (map (\<lambda>p. p_name p @ [44]) ps) @ [93]),
      JSON_parse = (\<lambda>s. if s = str ''[]'' then Inr (JArr []) else Inl SyntaxError),
      round_mv = Fin,
      object_to_primitive = (\<lambda>v. Inr (str ''[object Object]''))\<rparr>"

definition no_errors :: backend where
  "no_errors =
     \<lparr>redis_get_error = None, redis_set_error = None, find_error = None, save_error = None\<rparr>"

definition network_error :: js_error where
  "network_error =
     \<lparr>err_name = str ''MongoNetworkError'', err_code = JUndefined,
      err_message = str ''connection closed''\<rparr>"

definition widget :: product where
  "widget =
     \<lparr>p_id = 0, p_name = str ''Widget'', p_price = Fin (999 / 100), p_description = []\<rparr>"

definition widget_body :: req_body where
  "widget_body =
     \<lparr>name = JStr (str ''Widget''), price = JNum (Fin (999 / 100)), description = JUndefined\<rparr>"

text \<open>A fresh service with the cache connected, the same with no cache client, and a
  service that holds the widget.\<close>

definition fresh :: state where
  "fresh =
     \<lparr>redisClient = Some \<lparr>isReady = True\<rparr>, redis_data = (\<lambda>k. None), collection = [],
      next_id = 0\<rparr>"


definition with_widget :: state where
  "with_widget = fresh\<lparr>collection := [widget], next_id := 1\<rparr>"

text \<open>Backends in which one call rejects.\<close>

definition get_fails :: backend where
  "get_fails = no_errors\<lparr>redis_get_error := Some network_error\<rparr>"

definition find_fails :: backend where
  "find_fails = no_errors\<lparr>find_error := Some network_error\<rparr>"

definition save_fails :: backend where
  "save_fails = no_errors\<lparr>save_error := Some network_error\<rparr>"

definition set_fails :: backend where
  "set_fails = no_errors\<lparr>redis_set_error := Some network_error\<rparr>"

text \<open>
  The service with the widget and a cache entry: the entry a request wrote, the same
  with the client not ready, an entry whose value is the empty string, an entry whose
  value is not JSON, and an entry whose value is the JSON text of the empty array. The
  Redis server is a process of its own, which other clients can write to (the compose
  file of the repository deploys an administration interface for it), so the value under
  the key is any string.
\<close>

definition cached_widget :: state where
  "cached_widget =
     with_widget\<lparr>redis_data :=
       (\<lambda>k. None)(cacheKey \<mapsto> \<lparr>ce_value = str ''[Widget,]'', ce_EX = 3600\<rparr>)\<rparr>"

definition offline_widget :: state where
  "offline_widget = cached_widget\<lparr>redisClient := Some \<lparr>isReady = False\<rparr>\<rparr>"





definition free_body :: req_body where
  "free_body = \<lparr>name = JStr (str ''Widget''), price = JNum (Fin 0), description = JUndefined\<rparr>"

definition blank_body :: req_body where
  "blank_body = \<lparr>name = JStr (str ''   ''), price = JNum (Fin 5), description = JUndefined\<rparr>"

section \<open>Lemmas about the handlers\<close>

lemmas result_defs = response_of_def state_of_def events_of_def

lemma Product_save_ok:
  "save_error env = None \<Longrightarrow> Product_save env d st = Inr (stored st d, after_save st d)"
  by (simp add: Product_save_def)

lemma Product_save_fails:
  "save_error env = Some e \<Longrightarrow> Product_save env d st = Inl e"
  by (simp add: Product_save_def)

lemma update_cache_eq:
  "update_cache B env st =
     (if \<not> client_ready st then (st, [])
      else if find_error env \<noteq> None then (st, [MongoFind])
      else
        (if redis_set_error env \<noteq> None then st
         else st\<lparr>redis_data := (redis_data st)(cacheKey \<mapsto>
                 \<lparr>ce_value = JSON_stringify B (collection st), ce_EX = 3600\<rparr>)\<rparr>,
         [MongoFind, RedisSet cacheKey (JSON_stringify B (collection st)) 3600]))"
  by (auto simp add: update_cache_def Product_find_def redis_set_def split: option.splits)

lemma write_cache_eq:
  "write_cache B env ps st =
     (if client_ready st \<and> ps \<noteq> [] then
        (if redis_set_error env \<noteq> None then st
         else st\<lparr>redis_data := (redis_data st)(cacheKey \<mapsto>
                 \<lparr>ce_value = JSON_stringify B ps, ce_EX = 3600\<rparr>)\<rparr>,
         [RedisSet cacheKey (JSON_stringify B ps) 3600])
      else (st, []))"
  by (auto simp add: write_cache_def redis_set_def split: option.splits)

lemma read_cache_events:
  "snd (read_cache env st) = (if client_ready st then [RedisGet cacheKey] else [])"
  by (simp add: read_cache_def split: sum.splits)

lemma get_products_cases:
  obtains
    (hit) v where "fst (read_cache env st) = Some v" and "v \<noteq> []"
      and "get_products B env st =
             ((case JSON_parse B v of
                 Inl e \<Rightarrow> failed 500 (err_message e)
               | Inr d \<Rightarrow> succeeded 200 (Parsed d) (str ''Products retrieved from cache'')),
              st, [RedisGet cacheKey])"
  | (find_failed) e where "\<not> cache_hit (fst (read_cache env st))" and "find_error env = Some e"
      and "get_products B env st =
             (failed 500 (err_message e), st, snd (read_cache env st) @ [MongoFind])"
  | (found) "\<not> cache_hit (fst (read_cache env st))" and "find_error env = None"
      and "get_products B env st =
             (succeeded 200 (Products (collection st)) (str ''Products retrieved successfully''),
              fst (write_cache B env (collection st) st),
              snd (read_cache env st) @ [MongoFind] @ snd (write_cache B env (collection st) st))"
proof (cases "cache_hit (fst (read_cache env st))")
  case True
  then obtain v where v: "fst (read_cache env st) = Some v" "v \<noteq> []"
    by (auto simp add: cache_hit_def split: option.splits)
  from v have ready: "client_ready st"
    by (simp add: read_cache_def split: if_splits)
  from v ready have "get_products B env st =
             ((case JSON_parse B v of
                 Inl e \<Rightarrow> failed 500 (err_message e)
               | Inr d \<Rightarrow> succeeded 200 (Parsed d) (str ''Products retrieved from cache'')),
              st, [RedisGet cacheKey])"
    using read_cache_events [of env st]
    by (cases "read_cache env st") (simp add: get_products_def cache_hit_def split: sum.splits)
  with v show ?thesis by (rule hit)
next
  case miss: False
  show ?thesis
  proof (cases "find_error env")
    case (Some e)
    with miss have "get_products B env st =
             (failed 500 (err_message e), st, snd (read_cache env st) @ [MongoFind])"
      by (cases "read_cache env st") (simp add: get_products_def Product_find_def)
    with miss Some show ?thesis by (rule find_failed)
  next
    case None
    with miss have "get_products B env st =
             (succeeded 200 (Products (collection st)) (str ''Products retrieved successfully''),
              fst (write_cache B env (collection st) st),
              snd (read_cache env st) @ [MongoFind] @ snd (write_cache B env (collection st) st))"
      by (cases "read_cache env st")
        (simp add: get_products_def Product_find_def split: prod.splits)
    with miss None show ?thesis by (rule found)
  qed
qed

lemma post_catch_status: "status (post_catch e) \<noteq> 201"
  by (simp add: post_catch_def failed_def)

lemma post_catch_data: "data (post_catch e) = None"
  by (simp add: post_catch_def failed_def)

lemma post_products_cases:
  obtains
    (no_call) res where "status res \<noteq> 201" and "data res = None"
      and "post_products B env body st = (res, st, [])"
  | (save_failed) d e where "new_Product B body = Inr d" and "save_error env = Some e"
      and "post_products B env body st = (post_catch e, st, [MongoSave d])"
  | (saved) d where "truthy (name body)" and "truthy (price body)"
      and "price_rejected B (price body) = Inr False"
      and "new_Product B body = Inr d" and "save_error env = None"
      and "post_products B env body st =
             (succeeded 201 (Saved (stored st d)) (str ''Product created successfully''),
              fst (update_cache B env (after_save st d)),
              MongoSave d # snd (update_cache B env (after_save st d)))"
proof (cases "\<not> truthy (name body) \<or> \<not> truthy (price body)")
  case True
  then have "post_products B env body st =
      (failed 400 (str ''Name and price are required fields''), st, [])"
    by (simp add: post_products_def post_try_def)
  then show ?thesis by (intro no_call [of _]) (simp_all add: failed_def post_catch_status post_catch_data)
next
  case required: False
  show ?thesis
  proof (cases "price_rejected B (price body)")
    case (Inl e)
    with required have "post_products B env body st = (post_catch e, st, [])"
      by (simp add: post_products_def post_try_def)
    then show ?thesis by (intro no_call [of _]) (simp_all add: failed_def post_catch_status post_catch_data)
  next
    case (Inr rejected)
    show ?thesis
    proof (cases rejected)
      case True
      with required Inr have "post_products B env body st =
          (failed 400 (str ''Price must be a valid positive number''), st, [])"
        by (simp add: post_products_def post_try_def)
      then show ?thesis by (intro no_call [of _]) (simp_all add: failed_def post_catch_status post_catch_data)
    next
      case accepted: False
      show ?thesis
      proof (cases "new_Product B body")
        case (Inl e)
        with required Inr accepted have "post_products B env body st = (post_catch e, st, [])"
          by (simp add: post_products_def post_try_def)
        then show ?thesis by (intro no_call [of _]) (simp_all add: failed_def post_catch_status post_catch_data)
      next
        case built: (Inr d)
        show ?thesis
        proof (cases "save_error env")
          case (Some e)
          with required Inr accepted built
          have "post_products B env body st = (post_catch e, st, [MongoSave d])"
            by (simp add: post_products_def post_try_def Product_save_fails)
          with built Some show ?thesis by (rule save_failed)
        next
          case None
          with required Inr accepted built
          have "post_products B env body st =
             (succeeded 201 (Saved (stored st d)) (str ''Product created successfully''),
              fst (update_cache B env (after_save st d)),
              MongoSave d # snd (update_cache B env (after_save st d)))"
            by (simp add: post_products_def post_try_def Product_save_ok split: prod.splits)
          with required Inr accepted built None show ?thesis
            using saved by simp
        qed
      qed
    qed
  qed
qed

lemma str_abc_not_a_number: "string_to_number B (str ''abc'') = NaN"
  by (simp add: string_to_number_def str_def trim_def is_white_space_def non_decimal_def
      scan_signed_def scan_unsigned_def is_digit_def)

lemma price_rejected_minus_one: "price_rejected B (JNum (Fin (- 1))) = Inr True"
  by (simp add: price_rejected_def isNaN_def less_than_zero_def to_number_def)

lemma price_rejected_abc: "price_rejected B (JStr (str ''abc'')) = Inr True"
  by (simp add: price_rejected_def isNaN_def to_number_def str_abc_not_a_number)

lemma get_redis_sets:
  "redis_sets (events_of (get_products B env st)) =
     (if cache_hit (fst (read_cache env st)) then []
      else
        (case Product_find env st of
           Inl e \<Rightarrow> []
         | Inr ps \<Rightarrow>
             if client_ready st \<and> ps \<noteq> [] then [(cacheKey, JSON_stringify B ps, 3600)]
             else []))"
  by (cases rule: get_products_cases [of env st B])
    (simp_all add: events_of_def cache_hit_def read_cache_events write_cache_eq Product_find_def)

lemma post_redis_sets:
  "redis_sets (events_of (post_products B env body st)) =
     (if status (response_of (post_products B env body st)) = 201 \<and> client_ready st \<and>
         find_error env = None
      then [(cacheKey,
             JSON_stringify B (collection (state_of (post_products B env body st))), 3600)]
      else [])"
proof (cases rule: post_products_cases [of B env body st])
  case (no_call res)
  then show ?thesis by (simp add: result_defs)
next
  case (save_failed d e)
  then show ?thesis by (simp add: result_defs post_catch_status)
next
  case (saved d)
  then show ?thesis
    by (simp add: result_defs update_cache_eq succeeded_def client_ready_def after_save_def)
qed

lemma get_state:
  "state_of (get_products B env st) =
     (if redis_sets (events_of (get_products B env st)) = [] \<or> redis_set_error env \<noteq> None then st
      else st\<lparr>redis_data := (redis_data st)(cacheKey \<mapsto>
              \<lparr>ce_value = JSON_stringify B (collection st), ce_EX = 3600\<rparr>)\<rparr>)"
  by (cases rule: get_products_cases [of env st B])
    (simp_all add: result_defs read_cache_events write_cache_eq)

lemma get_finds:
  "count_list (events_of (get_products B env st)) MongoFind =
     (if cache_hit (fst (read_cache env st)) then 0 else 1)"
  by (cases rule: get_products_cases [of env st B])
    (simp_all add: result_defs read_cache_events write_cache_eq cache_hit_def)

lemma post_finds:
  "count_list (events_of (post_products B env body st)) MongoFind =
     (if status (response_of (post_products B env body st)) = 201 \<and> client_ready st then 1 else 0)"
  by (cases rule: post_products_cases [of B env body st])
    (simp_all add: result_defs update_cache_eq post_catch_status succeeded_def client_ready_def
      after_save_def)

lemma post_state:
  "state_of (post_products B env body st) = st \<and>
     status (response_of (post_products B env body st)) \<noteq> 201
   \<or> (\<exists>d. new_Product B body = Inr d \<and>
        response_of (post_products B env body st) =
          succeeded 201 (Saved (stored st d)) (str ''Product created successfully'') \<and>
        state_of (post_products B env body st) =
          (if client_ready st \<and> find_error env = None \<and> redis_set_error env = None
           then (after_save st d)\<lparr>redis_data := (redis_data st)(cacheKey \<mapsto>
                   \<lparr>ce_value = JSON_stringify B (collection st @ [stored st d]),
                    ce_EX = 3600\<rparr>)\<rparr>
           else after_save st d))"
  by (cases rule: post_products_cases [of B env body st])
    (auto simp add: result_defs update_cache_eq post_catch_status client_ready_def
      after_save_def)

lemma is_snapshot_iff:
  "is_snapshot B ds ce \<longleftrightarrow>
     (\<exists>n\<le>length ds. ce_value ce = JSON_stringify B (take n ds)) \<and> ce_EX ce = 3600"
proof -
  have "set (map (\<lambda>n. JSON_stringify B (take n ds)) [0..<Suc (length ds)]) =
          (\<lambda>n. JSON_stringify B (take n ds)) ` {..length ds}"
    by (simp only: set_map set_upt atLeast0LessThan lessThan_Suc_atMost)
  then show ?thesis
    by (auto simp add: is_snapshot_def simp del: upt_Suc)
qed

lemma is_snapshot_whole:
  "is_snapshot B ds \<lparr>ce_value = JSON_stringify B ds, ce_EX = 3600\<rparr>"
  unfolding is_snapshot_iff by (auto intro: exI [of _ "length ds"])

lemma is_snapshot_append:
  assumes "is_snapshot B ds ce"
  shows "is_snapshot B (ds @ [x]) ce"
proof -
  from assms obtain n where n: "n \<le> length ds" "ce_value ce = JSON_stringify B (take n ds)"
    and ex: "ce_EX ce = 3600"
    unfolding is_snapshot_iff by blast
  from n have "n \<le> length (ds @ [x])" "ce_value ce = JSON_stringify B (take n (ds @ [x]))"
    by simp_all
  with ex show ?thesis
    unfolding is_snapshot_iff by blast
qed

lemma get_consistent:
  assumes "cache_consistent B st"
  shows "cache_consistent B (state_of (get_products B env st))"
  using assms
  by (simp add: get_state cache_consistent_def is_snapshot_whole)

lemma after_save_consistent:
  assumes "cache_consistent B st"
  shows "cache_consistent B (after_save st d)"
  using assms
  by (auto simp add: cache_consistent_def after_save_def is_snapshot_append split: option.splits)

lemma post_consistent:
  assumes "cache_consistent B st"
  shows "cache_consistent B (state_of (post_products B env body st))"
proof -
  from post_state [of B env body st] show ?thesis
  proof (elim disjE conjE exE)
    assume "state_of (post_products B env body st) = st"
    with assms show ?thesis by simp
  next
    fix d
    assume st': "state_of (post_products B env body st) =
          (if client_ready st \<and> find_error env = None \<and> redis_set_error env = None
           then (after_save st d)\<lparr>redis_data := (redis_data st)(cacheKey \<mapsto>
                   \<lparr>ce_value = JSON_stringify B (collection st @ [stored st d]),
                    ce_EX = 3600\<rparr>)\<rparr>
           else after_save st d)"
    show ?thesis
    proof (cases "client_ready st \<and> find_error env = None \<and> redis_set_error env = None")
      case True
      with st' show ?thesis
        by (simp add: cache_consistent_def after_save_def is_snapshot_whole)
    next
      case False
      with st' assms show ?thesis
        by (simp add: after_save_consistent)
    qed
  qed
qed

lemma step_consistent:
  "cache_consistent B st \<Longrightarrow> cache_consistent B (step_state B x st)"
  by (cases x)
    (simp_all add: get_consistent post_consistent,
     simp_all add: cache_consistent_def split: option.splits)

lemma run_consistent:
  "cache_consistent B st \<Longrightarrow> cache_consistent B (run B steps st)"
  by (induction steps arbitrary: st) (simp_all add: step_consistent)

lemma dropWhile_head: "xs = [] \<or> \<not> P (hd xs) \<Longrightarrow> dropWhile P xs = xs"
  by (cases xs) auto

lemma dropWhile_result_head: "dropWhile P xs = [] \<or> \<not> P (hd (dropWhile P xs))"
  by (metis hd_dropWhile)

lemma strip_end_head:
  assumes "t = [] \<or> \<not> P (hd t)"
  shows "rev (dropWhile P (rev t)) = [] \<or> \<not> P (hd (rev (dropWhile P (rev t))))"
proof (cases "rev (dropWhile P (rev t)) = []")
  case True
  then show ?thesis by blast
next
  case False
  have "rev t = takeWhile P (rev t) @ dropWhile P (rev t)"
    by simp
  then have "rev (rev t) = rev (takeWhile P (rev t) @ dropWhile P (rev t))"
    by (rule arg_cong)
  then have t: "t = rev (dropWhile P (rev t)) @ rev (takeWhile P (rev t))"
    by (simp only: rev_rev_ident rev_append)
  with False have "hd t = hd (rev (dropWhile P (rev t)))"
    by (metis hd_append2)
  moreover from False t have "t \<noteq> []"
    by (metis append_is_Nil_conv)
  ultimately show ?thesis
    using assms by metis
qed

lemma trim_idem: "trim (trim s) = trim s"
proof -
  let ?P = is_white_space
  let ?t = "dropWhile ?P s"
  let ?u = "rev (dropWhile ?P (rev ?t))"
  have "?u = [] \<or> \<not> ?P (hd ?u)"
    by (rule strip_end_head) (rule dropWhile_result_head)
  then have "dropWhile ?P ?u = ?u"
    by (rule dropWhile_head)
  then have "trim ?u = rev (dropWhile ?P (rev ?u))"
    by (simp only: trim_def)
  also have "\<dots> = ?u"
    by (simp only: rev_rev_ident dropWhile_idem)
  finally show ?thesis
    by (simp only: trim_def)
qed

lemma trim_ends:
  "trim s = [] \<or> (\<not> is_white_space (hd (trim s)) \<and> \<not> is_white_space (last (trim s)))"
proof (cases "trim s = []")
  case True
  then show ?thesis by simp
next
  case False
  have "\<not> is_white_space (hd (trim s))"
    using False strip_end_head [of "dropWhile is_white_space s" is_white_space]
      dropWhile_result_head [of is_white_space s]
    unfolding trim_def by metis
  moreover have "\<not> is_white_space (last (trim s))"
    using False dropWhile_result_head [of is_white_space "rev (dropWhile is_white_space s)"]
    unfolding trim_def by (metis last_rev rev.simps(1))
  ultimately show ?thesis by simp
qed

lemma trim_spaces: "trim (str ''   '') = []"
  by (simp add: trim_def str_def is_white_space_def)

lemma trim_Nil: "trim [] = []"
  by (simp add: trim_def)

lemma positive_accepted:
  assumes "positive p"
  shows "truthy (JNum p)" and "price_rejected B (JNum p) = Inr False"
    and "parseFloat B (JNum p) = Inr p"
  using assms
  by (cases p; simp add: positive_def price_rejected_def isNaN_def less_than_zero_def
      to_number_def parseFloat_def)+

lemma new_Product_valid:
  assumes "text_or_absent d"
  shows "new_Product B \<lparr>name = JStr nm, price = JNum p, description = d\<rparr> =
           Inr \<lparr>f_name = trim nm, f_price = (if p = NegZero then Fin 0 else p),
                f_description = description_text d\<rparr>"
  using assms
  by (cases d)
    (simp_all add: new_Product_def call_trim_def parseFloat_def text_or_absent_def
      description_text_def trim_Nil)

lemma post_valid:
  assumes "nm \<noteq> []" and "positive p" and "text_or_absent d" and "save_error env = None"
  shows "post_products B env \<lparr>name = JStr nm, price = JNum p, description = d\<rparr> st =
           (succeeded 201
              (Saved (stored st \<lparr>f_name = trim nm, f_price = p,
                                 f_description = description_text d\<rparr>))
              (str ''Product created successfully''),
            fst (update_cache B env
                   (after_save st \<lparr>f_name = trim nm, f_price = p,
                                    f_description = description_text d\<rparr>)),
            MongoSave \<lparr>f_name = trim nm, f_price = p, f_description = description_text d\<rparr> #
            snd (update_cache B env
                   (after_save st \<lparr>f_name = trim nm, f_price = p,
                                    f_description = description_text d\<rparr>)))"
proof -
  from assms(2) have "p \<noteq> NegZero"
    by (auto simp add: positive_def)
  with assms show ?thesis
    by (simp add: post_products_def post_try_def positive_accepted new_Product_valid
        Product_save_ok split: prod.splits)
qed

lemma update_cache_collection:
  "collection (fst (update_cache B env st)) = collection st"
  by (simp add: update_cache_eq)

lemma read_cache_set_error: "read_cache (env\<lparr>redis_set_error := x\<rparr>) st = read_cache env st"
  by (simp add: read_cache_def redis_get_def)

lemma get_response:
  "response_of (get_products B env st) =
     (if cache_hit (fst (read_cache env st)) then
        (case JSON_parse B (the (fst (read_cache env st))) of
           Inl e \<Rightarrow> failed 500 (err_message e)
         | Inr d \<Rightarrow> succeeded 200 (Parsed d) (str ''Products retrieved from cache''))
      else
        (case find_error env of
           Some e \<Rightarrow> failed 500 (err_message e)
         | None \<Rightarrow>
             succeeded 200 (Products (collection st)) (str ''Products retrieved successfully'')))"
  by (cases rule: get_products_cases [of env st B])
    (simp_all add: response_of_def cache_hit_def)

lemma post_response:
  "response_of (post_products B env body st) =
     (if \<not> truthy (name body) \<or> \<not> truthy (price body) then
        failed 400 (str ''Name and price are required fields'')
      else
        (case price_rejected B (price body) of
           Inl e \<Rightarrow> post_catch e
         | Inr True \<Rightarrow> failed 400 (str ''Price must be a valid positive number'')
         | Inr False \<Rightarrow>
             (case new_Product B body of
                Inl e \<Rightarrow> post_catch e
              | Inr d \<Rightarrow>
                  (case save_error env of
                     Some e \<Rightarrow> post_catch e
                   | None \<Rightarrow>
                       succeeded 201 (Saved (stored st d))
                         (str ''Product created successfully'')))))"
  by (simp add: post_products_def post_try_def Product_save_def response_of_def
      split: sum.splits bool.splits option.splits prod.splits)

lemma post_collection:
  "collection (state_of (post_products B env body st)) =
     collection st @
     (case data (response_of (post_products B env body st)) of
        Some (Saved p) \<Rightarrow> [p]
      | _ \<Rightarrow> [])"
  by (cases rule: post_products_cases [of B env body st])
    (simp_all add: result_defs post_catch_data update_cache_collection succeeded_def
      after_save_def)

lemma stored_cache: "stored (st\<lparr>redis_data := c\<rparr>) d = stored st d"
  by (simp add: stored_def)

lemma post_response_cache:
  "response_of (post_products B env body (st\<lparr>redis_data := c\<rparr>)) =
     response_of (post_products B env body st)"
  by (simp add: post_response stored_cache split: sum.splits bool.splits option.splits)

lemma post_redis_sets_cache:
  "redis_sets (events_of (post_products B env body (st\<lparr>redis_data := c\<rparr>))) =
     redis_sets (events_of (post_products B env body st))"
  by (simp add: post_redis_sets post_collection post_response_cache client_ready_def)

lemma post_cache:
  "redis_data (state_of (post_products B env body st)) =
     (if status (response_of (post_products B env body st)) = 201 \<and> client_ready st \<and>
         find_error env = None \<and> redis_set_error env = None
      then (redis_data st)(cacheKey \<mapsto>
             \<lparr>ce_value = JSON_stringify B (collection (state_of (post_products B env body st))),
              ce_EX = 3600\<rparr>)
      else redis_data st)"
proof (cases rule: post_products_cases [of B env body st])
  case (no_call res)
  then show ?thesis by (simp add: result_defs)
next
  case (save_failed d e)
  then show ?thesis by (simp add: result_defs post_catch_status)
next
  case (saved d)
  then show ?thesis
    by (simp add: result_defs update_cache_eq succeeded_def client_ready_def after_save_def)
qed

lemma get_set_one_find:
  "redis_sets (events_of (get_products B env st)) \<noteq> [] \<longrightarrow>
     count_list (events_of (get_products B env st)) MongoFind = 1"
  by (simp add: get_redis_sets get_finds)

lemma post_set_one_find:
  "redis_sets (events_of (post_products B env body st)) \<noteq> [] \<longrightarrow>
     count_list (events_of (post_products B env body st)) MongoFind = 1"
  by (simp add: post_redis_sets post_finds)

section \<open>Evaluating the handlers on the samples\<close>

lemmas handler_defs =
  get_products_def read_cache_def cache_hit_def write_cache_def post_products_def post_try_def
  post_catch_def price_rejected_def new_Product_def update_cache_def redis_get_def redis_set_def
  Product_find_def Product_save_def stored_def after_save_def client_ready_def
  isNaN_def less_than_zero_def to_number_def parseFloat_def call_trim_def
  succeeded_def failed_def response_of_def state_of_def events_of_def

lemma trim_Widget: "trim (str ''Widget'') = str ''Widget''"
  by (simp add: trim_def str_def is_white_space_def)


lemma str_nonempty: "str ''Widget'' \<noteq> []" "str '' Widget '' \<noteq> []" "str ''   '' \<noteq> []"
  by (simp_all add: str_def)

lemma stringify_widget: "JSON_stringify sample_builtins [widget] = str ''[Widget,]''"
  by (simp add: sample_builtins_def widget_def str_def)

lemma post_widget:
  "post_products sample_builtins no_errors widget_body fresh =
     (succeeded 201 (Saved widget) (str ''Product created successfully''),
      cached_widget,
      [MongoSave \<lparr>f_name = str ''Widget'', f_price = Fin (999 / 100), f_description = []\<rparr>,
       MongoFind, RedisSet cacheKey (str ''[Widget,]'') 3600])"
proof -
  have "post_products sample_builtins no_errors widget_body fresh =
     (succeeded 201 (Saved widget) (str ''Product created successfully''),
      cached_widget,
      [MongoSave \<lparr>f_name = str ''Widget'', f_price = Fin (999 / 100), f_description = []\<rparr>,
       MongoFind, RedisSet cacheKey (JSON_stringify sample_builtins [widget]) 3600])"
    by (simp add: handler_defs no_errors_def widget_def widget_body_def fresh_def with_widget_def
        cached_widget_def trim_Widget str_nonempty stringify_widget [unfolded widget_def])
  then show ?thesis
    by (simp add: stringify_widget)
qed

section \<open>The claims\<close>




text \<open>
  C2. When the cache backend is unreachable (\<^verbatim>\<open>redisClient\<close> is \<^verbatim>\<open>null\<close> or its \<^verbatim>\<open>isReady\<close> is
  false, or the client is ready and the read of the key rejects) and the store read
  succeeds, \<^verbatim>\<open>GET /api/products\<close> answers 200 with \<^verbatim>\<open>success: true\<close> and exactly the
  documents the store returned. With no ready client the cache is not touched at all:
  the state is unchanged and the one call of the request is the store read.
\<close>

theorem fail_open:
  assumes "\<not> client_ready st \<or> redis_get_error env \<noteq> None"
    and "Product_find env st = Inr ps"
  shows "response_of (get_products B env st) =
           \<lparr>status = 200, success = True, data = Some (Products ps),
            message = Some (str ''Products retrieved successfully''), error = None\<rparr>
         \<and> (\<not> client_ready st \<longrightarrow>
              state_of (get_products B env st) = st \<and>
              events_of (get_products B env st) = [MongoFind])"
proof -
  from assms(1) have miss: "\<not> cache_hit (fst (read_cache env st))"
    by (auto simp add: read_cache_def redis_get_def cache_hit_def)
  from assms(2) have found: "find_error env = None" "ps = collection st"
    by (auto simp add: Product_find_def split: option.splits)
  from miss found show ?thesis
    by (cases rule: get_products_cases [of env st B])
      (simp_all add: result_defs succeeded_def cache_hit_def read_cache_events write_cache_eq)
qed

text \<open>The theorem on the service that holds the widget: with no cache client, and with
  the cache connected and a read that rejects.\<close>

theorem fail_open_witness:
  "\<not> client_ready (with_widget\<lparr>redisClient := None\<rparr>) \<and>
   Product_find no_errors (with_widget\<lparr>redisClient := None\<rparr>) = Inr [widget] \<and>
   response_of (get_products sample_builtins no_errors (with_widget\<lparr>redisClient := None\<rparr>)) =
     \<lparr>status = 200, success = True, data = Some (Products [widget]),
      message = Some (str ''Products retrieved successfully''), error = None\<rparr> \<and>
   state_of (get_products sample_builtins no_errors (with_widget\<lparr>redisClient := None\<rparr>)) =
     with_widget\<lparr>redisClient := None\<rparr> \<and>
   events_of (get_products sample_builtins no_errors (with_widget\<lparr>redisClient := None\<rparr>)) =
     [MongoFind] \<and>
   client_ready with_widget \<and> redis_get_error get_fails \<noteq> None \<and>
   Product_find get_fails with_widget = Inr [widget] \<and>
   response_of (get_products sample_builtins get_fails with_widget) =
     \<lparr>status = 200, success = True, data = Some (Products [widget]),
      message = Some (str ''Products retrieved successfully''), error = None\<rparr>"
proof -
  have absent: "\<not> client_ready (with_widget\<lparr>redisClient := None\<rparr>)"
    "Product_find no_errors (with_widget\<lparr>redisClient := None\<rparr>) = Inr [widget]"
    by (simp_all add: client_ready_def Product_find_def no_errors_def with_widget_def fresh_def)
  have rejects: "client_ready with_widget" "redis_get_error get_fails \<noteq> None"
    "Product_find get_fails with_widget = Inr [widget]"
    by (simp_all add: client_ready_def Product_find_def get_fails_def no_errors_def
        with_widget_def fresh_def)
  from fail_open [of "with_widget\<lparr>redisClient := None\<rparr>" no_errors "[widget]" sample_builtins]
    fail_open [of with_widget get_fails "[widget]" sample_builtins]
    absent rejects
  show ?thesis
    by simp
qed

text \<open>
  C3. A create request whose price is \<^verbatim>\<open>-1\<close> or \<^verbatim>\<open>"abc"\<close>, with any name and any
  description, is answered 400 and writes nothing: the state, and with it the
  collection, is as before and no call reaches a backend. The message is that of the
  price test, or that of the required-field test when the name is falsy.
\<close>

theorem invalid_price_rejected:
  "post_products B env \<lparr>name = nm, price = JNum (Fin (- 1)), description = d\<rparr> st =
     (failed 400 (if truthy nm then str ''Price must be a valid positive number''
                  else str ''Name and price are required fields''), st, [])
   \<and> post_products B env \<lparr>name = nm, price = JStr (str ''abc''), description = d\<rparr> st =
     (failed 400 (if truthy nm then str ''Price must be a valid positive number''
                  else str ''Name and price are required fields''), st, [])"
proof -
  have abc: "str ''abc'' \<noteq> []"
    by (simp add: str_def)
  show ?thesis
    by (simp add: post_products_def post_try_def price_rejected_minus_one price_rejected_abc abc)
qed

text \<open>The theorem for the widget's name, on the service that holds the widget: the
  status is 400 and the collection is still the widget alone.\<close>

theorem invalid_price_rejected_witness:
  "status (response_of (post_products sample_builtins no_errors
      \<lparr>name = JStr (str ''Widget''), price = JNum (Fin (- 1)), description = JUndefined\<rparr>
      with_widget)) = 400 \<and>
   collection (state_of (post_products sample_builtins no_errors
      \<lparr>name = JStr (str ''Widget''), price = JNum (Fin (- 1)), description = JUndefined\<rparr>
      with_widget)) = [widget] \<and>
   status (response_of (post_products sample_builtins no_errors
      \<lparr>name = JStr (str ''Widget''), price = JStr (str ''abc''), description = JUndefined\<rparr>
      with_widget)) = 400 \<and>
   collection (state_of (post_products sample_builtins no_errors
      \<lparr>name = JStr (str ''Widget''), price = JStr (str ''abc''), description = JUndefined\<rparr>
      with_widget)) = [widget]"
  using invalid_price_rejected [of sample_builtins no_errors "JStr (str ''Widget'')" JUndefined
      with_widget]
  by (simp add: result_defs failed_def with_widget_def fresh_def)

text \<open>
  C4. The claim: a create whose name is empty after trimming, a name of white space
  included, fails with a validation error and persists nothing, so that every persisted
  product has a non-empty trimmed name. The code does not do this. The test of the
  required fields (lines 170-171, \<^verbatim>\<open>!name\<close>) does reject the empty name, with a 400 and
  nothing persisted; but it is made before the name is trimmed (line 188), so for a name
  that is not empty and that trimming empties (with a price above zero, a description
  that is text or absent and a save that the store accepts) the response is 201 and a
  document whose name is the empty string is persisted.
\<close>

theorem blank_name_persisted:
  "post_products B env \<lparr>name = JStr [], price = pr, description = d\<rparr> st =
     (failed 400 (str ''Name and price are required fields''), st, [])
   \<and> (nm \<noteq> [] \<longrightarrow> trim nm = [] \<longrightarrow> positive p \<longrightarrow> text_or_absent d \<longrightarrow> save_error env = None \<longrightarrow>
        response_of (post_products B env \<lparr>name = JStr nm, price = JNum p, description = d\<rparr> st) =
          succeeded 201
            (Saved \<lparr>p_id = next_id st, p_name = [], p_price = p,
                    p_description = description_text d\<rparr>)
            (str ''Product created successfully'') \<and>
        collection (state_of
            (post_products B env \<lparr>name = JStr nm, price = JNum p, description = d\<rparr> st)) =
          collection st @
          [\<lparr>p_id = next_id st, p_name = [], p_price = p, p_description = description_text d\<rparr>])"
proof (intro conjI impI)
  show "post_products B env \<lparr>name = JStr [], price = pr, description = d\<rparr> st =
     (failed 400 (str ''Name and price are required fields''), st, [])"
    by (simp add: post_products_def post_try_def)
next
  assume hyps: "nm \<noteq> []" "positive p" "text_or_absent d" "save_error env = None"
    and blank: "trim nm = []"
  note post = post_valid [OF hyps, of B st]
  from post blank
  show "response_of (post_products B env \<lparr>name = JStr nm, price = JNum p, description = d\<rparr> st) =
          succeeded 201
            (Saved \<lparr>p_id = next_id st, p_name = [], p_price = p,
                    p_description = description_text d\<rparr>)
            (str ''Product created successfully'')"
    by (simp add: response_of_def stored_def)
  from post blank
  show "collection (state_of
            (post_products B env \<lparr>name = JStr nm, price = JNum p, description = d\<rparr> st)) =
          collection st @
          [\<lparr>p_id = next_id st, p_name = [], p_price = p, p_description = description_text d\<rparr>]"
    by (simp add: state_of_def update_cache_collection after_save_def stored_def)
qed

text \<open>The theorem at the name of three spaces with the price 5, on a fresh service.\<close>

theorem blank_name_accepted:
  "str ''   '' \<noteq> [] \<and> trim (str ''   '') = [] \<and> positive (Fin 5) \<and>
   text_or_absent JUndefined \<and> save_error no_errors = None \<and>
   response_of (post_products sample_builtins no_errors blank_body fresh) =
     succeeded 201 (Saved \<lparr>p_id = 0, p_name = [], p_price = Fin 5, p_description = []\<rparr>)
       (str ''Product created successfully'') \<and>
   collection (state_of (post_products sample_builtins no_errors blank_body fresh)) =
     [\<lparr>p_id = 0, p_name = [], p_price = Fin 5, p_description = []\<rparr>]"
proof -
  have hyps: "str ''   '' \<noteq> []" "trim (str ''   '') = []" "positive (Fin 5)"
    "text_or_absent JUndefined" "save_error no_errors = None"
    by (simp_all add: str_nonempty trim_spaces positive_def text_or_absent_def no_errors_def)
  from blank_name_persisted [where B = sample_builtins and env = no_errors and st = fresh
      and nm = "str ''   ''" and p = "Fin 5" and d = JUndefined] hyps
  have "response_of (post_products sample_builtins no_errors blank_body fresh) =
     succeeded 201 (Saved \<lparr>p_id = 0, p_name = [], p_price = Fin 5, p_description = []\<rparr>)
       (str ''Product created successfully'')"
    and "collection (state_of (post_products sample_builtins no_errors blank_body fresh)) =
     [\<lparr>p_id = 0, p_name = [], p_price = Fin 5, p_description = []\<rparr>]"
    by (simp_all add: blank_body_def description_text_def fresh_def)
  with hyps show ?thesis
    by simp
qed




text \<open>
  C6. The claim: every cache entry, whenever present, is a complete serialized snapshot
  of the full collection produced by exactly one store query, and a successful create
  re-reads the whole collection and overwrites the entry with that fresh snapshot, never
  patching the cached value. As amended and proved: every entry the service writes is
  such a snapshot; a successful create re-reads the collection when the cache client is
  ready, and overwrites the entry with the fresh snapshot when, besides, neither the
  re-read nor the write rejects; otherwise it leaves the entry as it was (lines 198 and
  210-212, and the inner \<^verbatim>\<open>catch\<close>); the cached value is never read or patched. In these
  parts, in this order:
  \<^item> the invariant: from a state in which the entry, if there is one, is the whole
    serialization of the collection as it was at some moment, with the expiry of one
    hour, every run of requests, expiries and connection changes leads to such a state;
  \<^item> every \<^verbatim>\<open>SET\<close> of a \<^verbatim>\<open>GET\<close> carries the serialization of the whole collection, with
    the expiry of one hour;
  \<^item> the \<^verbatim>\<open>SET\<close> commands of a create: one, of the serialization of the whole collection
    as it is after the request, with the expiry of one hour, when the create is answered
    201, the client is ready and the re-read does not reject; none otherwise;
  \<^item> that collection is the collection before and, after a successful create, the saved
    document;
  \<^item> a \<^verbatim>\<open>GET\<close> queries the store once on a miss and not at all on a hit; a create queries
    it once when it is answered 201 and the client is ready, and not at all otherwise;
  \<^item> so a request that issues a \<^verbatim>\<open>SET\<close> makes exactly one store query, whose result is
    the value written;
  \<^item> the cache after a create: the entry is the serialization of the whole collection
    after the request, expiring in an hour, when the create is answered 201, the client
    is ready and neither the re-read nor the write rejects; the cache is as it was
    otherwise;
  \<^item> what a create writes does not depend on what the cache held.
\<close>

theorem cache_holds_whole_snapshots:
  "(cache_consistent B st \<longrightarrow> cache_consistent B (run B steps st))
   \<and> list_all (\<lambda>(k, v, ex). k = cacheKey \<and> v = JSON_stringify B (collection st) \<and> ex = 3600)
        (redis_sets (events_of (get_products B env st)))
   \<and> redis_sets (events_of (post_products B env body st)) =
        (if status (response_of (post_products B env body st)) = 201 \<and> client_ready st \<and>
            find_error env = None
         then [(cacheKey,
                JSON_stringify B (collection (state_of (post_products B env body st))), 3600)]
         else [])
   \<and> collection (state_of (post_products B env body st)) =
        collection st @
        (case data (response_of (post_products B env body st)) of
           Some (Saved p) \<Rightarrow> [p]
         | _ \<Rightarrow> [])
   \<and> count_list (events_of (get_products B env st)) MongoFind =
        (if cache_hit (fst (read_cache env st)) then 0 else 1)
   \<and> count_list (events_of (post_products B env body st)) MongoFind =
        (if status (response_of (post_products B env body st)) = 201 \<and> client_ready st
         then 1 else 0)
   \<and> (redis_sets (events_of (get_products B env st)) \<noteq> [] \<longrightarrow>
        count_list (events_of (get_products B env st)) MongoFind = 1)
   \<and> (redis_sets (events_of (post_products B env body st)) \<noteq> [] \<longrightarrow>
        count_list (events_of (post_products B env body st)) MongoFind = 1)
   \<and> redis_data (state_of (post_products B env body st)) =
        (if status (response_of (post_products B env body st)) = 201 \<and> client_ready st \<and>
            find_error env = None \<and> redis_set_error env = None
         then (redis_data st)(cacheKey \<mapsto>
                \<lparr>ce_value =
                   JSON_stringify B (collection (state_of (post_products B env body st))),
                 ce_EX = 3600\<rparr>)
         else redis_data st)
   \<and> redis_sets (events_of (post_products B env body (st\<lparr>redis_data := c\<rparr>))) =
        redis_sets (events_of (post_products B env body st))"
proof (intro conjI)
  show "cache_consistent B st \<longrightarrow> cache_consistent B (run B steps st)"
    by (simp add: run_consistent)
next
  show "list_all (\<lambda>(k, v, ex). k = cacheKey \<and> v = JSON_stringify B (collection st) \<and> ex = 3600)
        (redis_sets (events_of (get_products B env st)))"
    by (simp add: get_redis_sets Product_find_def split: option.splits)
next
  show "redis_sets (events_of (post_products B env body st)) =
        (if status (response_of (post_products B env body st)) = 201 \<and> client_ready st \<and>
            find_error env = None
         then [(cacheKey,
                JSON_stringify B (collection (state_of (post_products B env body st))), 3600)]
         else [])"
    by (rule post_redis_sets)
next
  show "collection (state_of (post_products B env body st)) =
        collection st @
        (case data (response_of (post_products B env body st)) of
           Some (Saved p) \<Rightarrow> [p]
         | _ \<Rightarrow> [])"
    by (rule post_collection)
next
  show "count_list (events_of (get_products B env st)) MongoFind =
        (if cache_hit (fst (read_cache env st)) then 0 else 1)"
    by (rule get_finds)
next
  show "count_list (events_of (post_products B env body st)) MongoFind =
        (if status (response_of (post_products B env body st)) = 201 \<and> client_ready st
         then 1 else 0)"
    by (rule post_finds)
next
  show "redis_sets (events_of (get_products B env st)) \<noteq> [] \<longrightarrow>
        count_list (events_of (get_products B env st)) MongoFind = 1"
    by (rule get_set_one_find)
next
  show "redis_sets (events_of (post_products B env body st)) \<noteq> [] \<longrightarrow>
        count_list (events_of (post_products B env body st)) MongoFind = 1"
    by (rule post_set_one_find)
next
  show "redis_data (state_of (post_products B env body st)) =
        (if status (response_of (post_products B env body st)) = 201 \<and> client_ready st \<and>
            find_error env = None \<and> redis_set_error env = None
         then (redis_data st)(cacheKey \<mapsto>
                \<lparr>ce_value =
                   JSON_stringify B (collection (state_of (post_products B env body st))),
                 ce_EX = 3600\<rparr>)
         else redis_data st)"
    by (rule post_cache)
next
  show "redis_sets (events_of (post_products B env body (st\<lparr>redis_data := c\<rparr>))) =
        redis_sets (events_of (post_products B env body st))"
    by (rule post_redis_sets_cache)
qed

text \<open>The theorem on a fresh service: after the create of the widget, a listing, the
  expiry of the entry and one more listing, the entry is the serialization of the one
  document; the create of the widget makes one store query and leaves that entry.\<close>

theorem cache_holds_whole_snapshots_witness:
  "cache_consistent sample_builtins fresh \<and>
   cache_consistent sample_builtins
     (run sample_builtins [Post no_errors widget_body, Get no_errors, Expire, Get no_errors]
        fresh) \<and>
   run sample_builtins [Post no_errors widget_body, Get no_errors, Expire, Get no_errors] fresh =
     cached_widget \<and>
   status (response_of (post_products sample_builtins no_errors widget_body fresh)) = 201 \<and>
   client_ready fresh \<and>
   collection (state_of (post_products sample_builtins no_errors widget_body fresh)) = [widget] \<and>
   count_list (events_of (post_products sample_builtins no_errors widget_body fresh)) MongoFind =
     1 \<and>
   redis_data (state_of (post_products sample_builtins no_errors widget_body fresh)) cacheKey =
     Some \<lparr>ce_value = JSON_stringify sample_builtins [widget], ce_EX = 3600\<rparr>"
proof -
  have start: "cache_consistent sample_builtins fresh"
    by (simp add: cache_consistent_def fresh_def)
  have post: "state_of (post_products sample_builtins no_errors widget_body fresh) = cached_widget"
    by (simp add: post_widget state_of_def)
  have get: "state_of (get_products sample_builtins no_errors cached_widget) = cached_widget"
    by (simp add: handler_defs no_errors_def cached_widget_def with_widget_def fresh_def
        sample_builtins_def str_def)
  have expire: "cached_widget\<lparr>redis_data := (redis_data cached_widget)(cacheKey := None)\<rparr> =
      with_widget"
    by (simp add: cached_widget_def with_widget_def fresh_def)
  have refill: "state_of (get_products sample_builtins no_errors with_widget) = cached_widget"
    by (simp add: handler_defs no_errors_def cached_widget_def with_widget_def fresh_def
        stringify_widget)
  have run: "run sample_builtins [Post no_errors widget_body, Get no_errors, Expire, Get no_errors]
      fresh = cached_widget"
    by (simp add: post get expire refill)
  have status: "status (response_of (post_products sample_builtins no_errors widget_body fresh)) = 201"
    by (simp add: post_widget response_of_def succeeded_def)
  have ready: "client_ready fresh" "find_error no_errors = None" "redis_set_error no_errors = None"
    by (simp_all add: client_ready_def fresh_def no_errors_def)
  have coll: "collection (state_of (post_products sample_builtins no_errors widget_body fresh)) =
      [widget]"
    unfolding post
    by (simp add: cached_widget_def with_widget_def fresh_def)
  note inst = cache_holds_whole_snapshots [where B = sample_builtins and st = fresh
      and steps = "[Post no_errors widget_body, Get no_errors, Expire, Get no_errors]"
      and env = no_errors and body = widget_body]
  from inst start
  have "cache_consistent sample_builtins
     (run sample_builtins [Post no_errors widget_body, Get no_errors, Expire, Get no_errors]
        fresh)"
    by blast
  moreover from inst status ready
  have "count_list (events_of (post_products sample_builtins no_errors widget_body fresh))
      MongoFind = 1"
    by simp
  moreover from inst status ready coll
  have "redis_data (state_of (post_products sample_builtins no_errors widget_body fresh)) =
      (redis_data fresh)(cacheKey \<mapsto>
         \<lparr>ce_value = JSON_stringify sample_builtins [widget], ce_EX = 3600\<rparr>)"
    by simp
  ultimately show ?thesis
    using start run status ready coll by simp
qed

text \<open>
  Where the claim as stated fails: on the service that holds the widget and its cache
  entry, with the client not ready, the create of one more document is answered 201; it
  makes no store query and no \<^verbatim>\<open>SET\<close>, and the entry written before the create is still
  there, while the collection has two documents.
\<close>

theorem create_without_refresh:
  "\<not> client_ready offline_widget \<and>
   status (response_of (post_products sample_builtins no_errors widget_body offline_widget)) =
     201 \<and>
   events_of (post_products sample_builtins no_errors widget_body offline_widget) =
     [MongoSave \<lparr>f_name = str ''Widget'', f_price = Fin (999 / 100), f_description = []\<rparr>] \<and>
   MongoFind \<notin> set (events_of
     (post_products sample_builtins no_errors widget_body offline_widget)) \<and>
   redis_data (state_of (post_products sample_builtins no_errors widget_body offline_widget)) =
     redis_data offline_widget \<and>
   redis_data offline_widget cacheKey = Some \<lparr>ce_value = str ''[Widget,]'', ce_EX = 3600\<rparr> \<and>
   collection offline_widget = [widget] \<and>
   collection (state_of (post_products sample_builtins no_errors widget_body offline_widget)) =
     [widget, widget\<lparr>p_id := 1\<rparr>]"
  by (simp add: handler_defs no_errors_def widget_body_def widget_def offline_widget_def
      cached_widget_def with_widget_def fresh_def trim_Widget str_nonempty)

text \<open>
  C7. On the read path the cache is written exactly when the store was read, the cache
  backend is reachable and the result is not empty; every cache write, of either
  handler, expires in 3600 seconds. In this order:
  \<^item> the \<^verbatim>\<open>SET\<close> commands of a \<^verbatim>\<open>GET\<close>: none on a hit and none when the store read rejects;
    after a store read that returned \<open>ps\<close>, one \<^verbatim>\<open>SET\<close> of the key \<^verbatim>\<open>products\<close> to the
    serialization of \<open>ps\<close> with \<^verbatim>\<open>EX\<close> 3600 if the client is ready and \<open>ps\<close> is not empty,
    and none otherwise;
  \<^item> the state after a \<^verbatim>\<open>GET\<close>: the entry is stored when a \<^verbatim>\<open>SET\<close> was issued and did not
    reject, and nothing changes otherwise;
  \<^item> the expiry of every \<^verbatim>\<open>SET\<close> of a \<^verbatim>\<open>GET\<close>, and of every \<^verbatim>\<open>SET\<close> of a create, is 3600.
\<close>

theorem cache_write_rule:
  "redis_sets (events_of (get_products B env st)) =
     (if cache_hit (fst (read_cache env st)) then []
      else
        (case Product_find env st of
           Inl e \<Rightarrow> []
         | Inr ps \<Rightarrow>
             if client_ready st \<and> ps \<noteq> [] then [(cacheKey, JSON_stringify B ps, 3600)]
             else []))
   \<and> state_of (get_products B env st) =
       (if redis_sets (events_of (get_products B env st)) = [] \<or> redis_set_error env \<noteq> None
        then st
        else st\<lparr>redis_data := (redis_data st)(cacheKey \<mapsto>
                \<lparr>ce_value = JSON_stringify B (collection st), ce_EX = 3600\<rparr>)\<rparr>)
   \<and> list_all (\<lambda>(k, v, ex). ex = 3600) (redis_sets (events_of (get_products B env st)))
   \<and> list_all (\<lambda>(k, v, ex). ex = 3600) (redis_sets (events_of (post_products B env body st)))"
proof (intro conjI)
  show "redis_sets (events_of (get_products B env st)) =
     (if cache_hit (fst (read_cache env st)) then []
      else
        (case Product_find env st of
           Inl e \<Rightarrow> []
         | Inr ps \<Rightarrow>
             if client_ready st \<and> ps \<noteq> [] then [(cacheKey, JSON_stringify B ps, 3600)]
             else []))"
    by (rule get_redis_sets)
next
  show "state_of (get_products B env st) =
       (if redis_sets (events_of (get_products B env st)) = [] \<or> redis_set_error env \<noteq> None
        then st
        else st\<lparr>redis_data := (redis_data st)(cacheKey \<mapsto>
                \<lparr>ce_value = JSON_stringify B (collection st), ce_EX = 3600\<rparr>)\<rparr>)"
    by (rule get_state)
next
  show "list_all (\<lambda>(k, v, ex). ex = 3600) (redis_sets (events_of (get_products B env st)))"
    by (simp add: get_redis_sets split: sum.splits)
next
  show "list_all (\<lambda>(k, v, ex). ex = 3600) (redis_sets (events_of (post_products B env body st)))"
    by (simp add: post_redis_sets)
qed

text \<open>The theorem on the service that holds the widget and an empty cache (a write), and
  on a fresh service, whose collection is empty (no write).\<close>

theorem cache_write_rule_witness:
  "redis_sets (events_of (get_products sample_builtins no_errors with_widget)) =
     [(cacheKey, str ''[Widget,]'', 3600)] \<and>
   state_of (get_products sample_builtins no_errors with_widget) = cached_widget \<and>
   redis_sets (events_of (get_products sample_builtins no_errors fresh)) = [] \<and>
   state_of (get_products sample_builtins no_errors fresh) = fresh \<and>
   redis_sets (events_of (post_products sample_builtins no_errors widget_body fresh)) =
     [(cacheKey, str ''[Widget,]'', 3600)]"
proof -
  have miss: "\<not> cache_hit (fst (read_cache no_errors with_widget))"
    "\<not> cache_hit (fst (read_cache no_errors fresh))"
    by (simp_all add: read_cache_def redis_get_def cache_hit_def no_errors_def with_widget_def
        fresh_def)
  have found: "Product_find no_errors with_widget = Inr [widget]"
    "Product_find no_errors fresh = Inr []"
    by (simp_all add: Product_find_def no_errors_def with_widget_def fresh_def)
  have ready: "client_ready with_widget" "redis_set_error no_errors = None"
    by (simp_all add: client_ready_def with_widget_def fresh_def no_errors_def)
  have entry: "with_widget\<lparr>redis_data := (redis_data with_widget)(cacheKey \<mapsto>
      \<lparr>ce_value = str ''[Widget,]'', ce_EX = 3600\<rparr>)\<rparr> = cached_widget"
    by (simp add: cached_widget_def with_widget_def fresh_def)
  have coll: "collection with_widget = [widget]"
    by (simp add: with_widget_def fresh_def)
  from cache_write_rule [of sample_builtins no_errors with_widget widget_body]
    cache_write_rule [of sample_builtins no_errors fresh widget_body]
    miss found ready entry coll
  have "redis_sets (events_of (get_products sample_builtins no_errors with_widget)) =
     [(cacheKey, str ''[Widget,]'', 3600)]"
    and "state_of (get_products sample_builtins no_errors with_widget) = cached_widget"
    and "redis_sets (events_of (get_products sample_builtins no_errors fresh)) = []"
    and "state_of (get_products sample_builtins no_errors fresh) = fresh"
    by (simp_all add: stringify_widget)
  moreover have "redis_sets (events_of (post_products sample_builtins no_errors widget_body fresh)) =
     [(cacheKey, str ''[Widget,]'', 3600)]"
    by (simp add: post_widget events_of_def)
  ultimately show ?thesis
    by simp
qed

text \<open>
  C8. A cache write that fails is swallowed: for either handler, the response of the
  request in which \<^verbatim>\<open>SET\<close> rejects with the error \<open>e\<close> is, status and body, the response of
  the same request in which \<^verbatim>\<open>SET\<close> goes through.
\<close>

theorem cache_write_failure_swallowed:
  "response_of (get_products B (env\<lparr>redis_set_error := Some e\<rparr>) st) =
     response_of (get_products B (env\<lparr>redis_set_error := None\<rparr>) st)
   \<and> response_of (post_products B (env\<lparr>redis_set_error := Some e\<rparr>) body st) =
     response_of (post_products B (env\<lparr>redis_set_error := None\<rparr>) body st)"
  by (simp add: get_response post_response read_cache_set_error split: sum.splits bool.splits)

text \<open>The theorem on requests that do issue a \<^verbatim>\<open>SET\<close>: the listing of the service that
  holds the widget, answered 200 with the widget, and the create of the widget on a fresh
  service, answered 201; with the write rejected the cache is left as it was.\<close>

theorem cache_write_failure_swallowed_witness:
  "response_of (get_products sample_builtins set_fails with_widget) =
     response_of (get_products sample_builtins no_errors with_widget) \<and>
   get_products sample_builtins set_fails with_widget =
     (succeeded 200 (Products [widget]) (str ''Products retrieved successfully''), with_widget,
      [RedisGet cacheKey, MongoFind, RedisSet cacheKey (str ''[Widget,]'') 3600]) \<and>
   response_of (post_products sample_builtins set_fails widget_body fresh) =
     response_of (post_products sample_builtins no_errors widget_body fresh) \<and>
   response_of (post_products sample_builtins set_fails widget_body fresh) =
     succeeded 201 (Saved widget) (str ''Product created successfully'') \<and>
   redis_sets (events_of (post_products sample_builtins set_fails widget_body fresh)) =
     [(cacheKey, str ''[Widget,]'', 3600)]"
proof -
  have envs: "no_errors\<lparr>redis_set_error := Some network_error\<rparr> = set_fails"
    "no_errors\<lparr>redis_set_error := None\<rparr> = no_errors"
    by (simp_all add: set_fails_def no_errors_def)
  from cache_write_failure_swallowed [where B = sample_builtins and env = no_errors
      and e = network_error and st = with_widget and body = widget_body]
    cache_write_failure_swallowed [where B = sample_builtins and env = no_errors
      and e = network_error and st = fresh and body = widget_body]
  have "response_of (get_products sample_builtins set_fails with_widget) =
     response_of (get_products sample_builtins no_errors with_widget)"
    and "response_of (post_products sample_builtins set_fails widget_body fresh) =
     response_of (post_products sample_builtins no_errors widget_body fresh)"
    unfolding envs by simp_all
  moreover have "get_products sample_builtins set_fails with_widget =
     (succeeded 200 (Products [widget]) (str ''Products retrieved successfully''), with_widget,
      [RedisGet cacheKey, MongoFind, RedisSet cacheKey (str ''[Widget,]'') 3600])"
    by (simp add: handler_defs set_fails_def no_errors_def with_widget_def fresh_def
        stringify_widget)
  moreover have "redis_sets (events_of (post_products sample_builtins set_fails widget_body fresh)) =
     [(cacheKey, str ''[Widget,]'', 3600)]"
    by (simp add: handler_defs set_fails_def no_errors_def widget_body_def fresh_def
        trim_Widget str_nonempty stringify_widget [unfolded widget_def])
  ultimately show ?thesis
    by (simp add: post_widget response_of_def)
qed

text \<open>
  C9. The claim: every \<^verbatim>\<open>GET\<close> or \<^verbatim>\<open>POST\<close> in which the store operation fails (for a \<^verbatim>\<open>POST\<close>,
  with an error that is neither a validation error nor a duplicate-key error) is answered
  500 with the error's message. As amended and proved: a \<^verbatim>\<open>GET\<close> whose store query
  rejects with \<open>e\<close>, and a \<^verbatim>\<open>POST\<close> whose save rejects with an \<open>e\<close> that is not named
  \<^verbatim>\<open>ValidationError\<close> and whose code is not 11000, is answered 500 with
  \<^verbatim>\<open>success: false\<close> and the message of \<open>e\<close>, and leaves the state as it was. The query by
  which a \<^verbatim>\<open>POST\<close> re-reads the collection for the cache is inside the inner \<^verbatim>\<open>try\<close> (lines
  199-209): when it rejects, the error is logged and the response is the 201 of the save;
  the last part of the theorem says so for every request: the response of a \<^verbatim>\<open>POST\<close> in
  which that query rejects is the response of the same \<^verbatim>\<open>POST\<close> in which it goes through.
\<close>

theorem store_failure_is_500:
  "(MongoFind \<in> set (events_of (get_products B env st)) \<longrightarrow> find_error env = Some e \<longrightarrow>
      response_of (get_products B env st) =
        \<lparr>status = 500, success = False, data = None, message = None,
         error = Some (err_message e)\<rparr> \<and>
      state_of (get_products B env st) = st)
   \<and> (MongoSave d \<in> set (events_of (post_products B env body st)) \<longrightarrow>
        save_error env = Some e \<longrightarrow>
        err_name e \<noteq> str ''ValidationError'' \<longrightarrow> err_code e \<noteq> JNum (Fin 11000) \<longrightarrow>
        response_of (post_products B env body st) =
          \<lparr>status = 500, success = False, data = None, message = None,
           error = Some (err_message e)\<rparr> \<and>
        state_of (post_products B env body st) = st)
   \<and> response_of (post_products B (env\<lparr>find_error := Some e\<rparr>) body st) =
       response_of (post_products B (env\<lparr>find_error := None\<rparr>) body st)"
proof (intro conjI impI)
  show "response_of (post_products B (env\<lparr>find_error := Some e\<rparr>) body st) =
       response_of (post_products B (env\<lparr>find_error := None\<rparr>) body st)"
    by (simp add: post_response split: sum.splits bool.splits)
next
  assume "MongoFind \<in> set (events_of (get_products B env st))" and "find_error env = Some e"
  then show "response_of (get_products B env st) =
        \<lparr>status = 500, success = False, data = None, message = None,
         error = Some (err_message e)\<rparr>"
    and "state_of (get_products B env st) = st"
    by (cases rule: get_products_cases [of env st B]; simp add: result_defs failed_def)+
next
  assume "MongoSave d \<in> set (events_of (post_products B env body st))"
    and "save_error env = Some e"
    and "err_name e \<noteq> str ''ValidationError''" and "err_code e \<noteq> JNum (Fin 11000)"
  then show "response_of (post_products B env body st) =
          \<lparr>status = 500, success = False, data = None, message = None,
           error = Some (err_message e)\<rparr>"
    and "state_of (post_products B env body st) = st"
    by (cases rule: post_products_cases [of B env body st];
        simp add: result_defs failed_def post_catch_def)+
qed

text \<open>The theorem on a fresh service: a listing whose query rejects and a create whose
  save rejects, both with a network error.\<close>

theorem store_failure_is_500_witness:
  "MongoFind \<in> set (events_of (get_products sample_builtins find_fails fresh)) \<and>
   find_error find_fails = Some network_error \<and>
   response_of (get_products sample_builtins find_fails fresh) =
     \<lparr>status = 500, success = False, data = None, message = None,
      error = Some (str ''connection closed'')\<rparr> \<and>
   MongoSave \<lparr>f_name = str ''Widget'', f_price = Fin (999 / 100), f_description = []\<rparr>
     \<in> set (events_of (post_products sample_builtins save_fails widget_body fresh)) \<and>
   save_error save_fails = Some network_error \<and>
   err_name network_error \<noteq> str ''ValidationError'' \<and>
   err_code network_error \<noteq> JNum (Fin 11000) \<and>
   response_of (post_products sample_builtins save_fails widget_body fresh) =
     \<lparr>status = 500, success = False, data = None, message = None,
      error = Some (str ''connection closed'')\<rparr> \<and>
   state_of (post_products sample_builtins save_fails widget_body fresh) = fresh"
proof -
  have hyps: "MongoFind \<in> set (events_of (get_products sample_builtins find_fails fresh))"
    "find_error find_fails = Some network_error"
    "MongoSave \<lparr>f_name = str ''Widget'', f_price = Fin (999 / 100), f_description = []\<rparr>
       \<in> set (events_of (post_products sample_builtins save_fails widget_body fresh))"
    "save_error save_fails = Some network_error"
    by (simp_all add: handler_defs find_fails_def save_fails_def no_errors_def fresh_def
        widget_body_def trim_Widget str_nonempty)
  have other: "err_name network_error \<noteq> str ''ValidationError''"
    "err_code network_error \<noteq> JNum (Fin 11000)"
    by (simp_all add: network_error_def str_def)
  have msg: "err_message network_error = str ''connection closed''"
    by (simp add: network_error_def)
  from store_failure_is_500 [where B = sample_builtins and env = find_fails and st = fresh
      and e = network_error] hyps(1,2)
  have "response_of (get_products sample_builtins find_fails fresh) =
     \<lparr>status = 500, success = False, data = None, message = None,
      error = Some (str ''connection closed'')\<rparr>"
    by (simp add: msg)
  moreover
  from store_failure_is_500 [where B = sample_builtins and env = save_fails and st = fresh
      and e = network_error and body = widget_body
      and d = "\<lparr>f_name = str ''Widget'', f_price = Fin (999 / 100), f_description = []\<rparr>"]
    hyps(3,4) other
  have "response_of (post_products sample_builtins save_fails widget_body fresh) =
     \<lparr>status = 500, success = False, data = None, message = None,
      error = Some (str ''connection closed'')\<rparr>"
    and "state_of (post_products sample_builtins save_fails widget_body fresh) = fresh"
    by (simp_all add: msg)
  ultimately show ?thesis
    using hyps other by simp
qed

text \<open>
  Where the claim as stated fails: in the create of the widget on a fresh service with
  the cache connected, the save goes through and the query that re-reads the collection
  rejects with a network error, which is neither a validation error nor a duplicate-key
  error; the response is 201.
\<close>

theorem reread_failure_not_surfaced:
  "find_error find_fails = Some network_error \<and>
   err_name network_error \<noteq> str ''ValidationError'' \<and>
   err_code network_error \<noteq> JNum (Fin 11000) \<and>
   events_of (post_products sample_builtins find_fails widget_body fresh) =
     [MongoSave \<lparr>f_name = str ''Widget'', f_price = Fin (999 / 100), f_description = []\<rparr>,
      MongoFind] \<and>
   response_of (post_products sample_builtins find_fails widget_body fresh) =
     succeeded 201 (Saved widget) (str ''Product created successfully'') \<and>
   status (response_of (post_products sample_builtins find_fails widget_body fresh)) = 201"
  by (simp add: handler_defs find_fails_def no_errors_def network_error_def widget_body_def
      widget_def fresh_def trim_Widget str_nonempty)
    (simp add: str_def)

text \<open>
  C10. A create whose price is exactly 0, whatever the name and the description, is
  answered 400 with \<^verbatim>\<open>{success: false, error: 'Name and price are required fields'}\<close> and
  persists nothing: the test of line 171 is \<^verbatim>\<open>!price\<close>, and 0 is falsy. The state is
  unchanged and no call reaches a backend. The same holds for \<^verbatim>\<open>-0\<close>.
\<close>

theorem price_zero_rejected:
  "post_products B env \<lparr>name = nm, price = JNum (Fin 0), description = d\<rparr> st =
     (\<lparr>status = 400, success = False, data = None, message = None,
       error = Some (str ''Name and price are required fields'')\<rparr>, st, [])
   \<and> post_products B env \<lparr>name = nm, price = JNum NegZero, description = d\<rparr> st =
     (\<lparr>status = 400, success = False, data = None, message = None,
       error = Some (str ''Name and price are required fields'')\<rparr>, st, [])"
  by (simp add: post_products_def post_try_def failed_def)

text \<open>The theorem for the widget at price 0, on the service that holds the widget.\<close>

theorem price_zero_rejected_witness:
  "truthy (name free_body) \<and> price free_body = JNum (Fin 0) \<and>
   post_products sample_builtins no_errors free_body with_widget =
     (\<lparr>status = 400, success = False, data = None, message = None,
       error = Some (str ''Name and price are required fields'')\<rparr>, with_widget, [])"
  using price_zero_rejected [of sample_builtins no_errors "JStr (str ''Widget'')" JUndefined
      with_widget]
  by (simp add: free_body_def str_nonempty)

end
